theory Spec2Isabelle
  imports Main "HOL-Library.Sublist"
begin

section \<open>Data model (shared/schema)\<close>

text \<open>
  The rows of the two tables the context composer reads. Identifiers are the integers
  of the \<open>serial\<close> columns; timestamps are integers (milliseconds of an epoch).
  A nullable \<open>text\<close> column is a \<open>string option\<close>, \<open>None\<close> being SQL \<open>NULL\<close>
  (JavaScript \<open>null\<close>). Of \<open>wisdom_circuits\<close> the columns the composer reads
  are kept; the three \<open>jsonb\<close> settings columns hold arrays of tags.
\<close>

record WisdomCircuit =
  wcId :: int
  name :: string
  grade :: string
  teachingStyles :: "string list"
  homeworkPolicies :: "string list"
  responseTypes :: "string list"
  stateAlignment :: string

text \<open>
  \<open>InsertCircuitContent\<close> is the insert schema: the table's columns without \<open>id\<close>,
  \<open>isArchived\<close> and \<open>uploadedAt\<close>. \<open>CircuitContent\<close>, the selected row, extends it by
  these three.
\<close>

record InsertCircuitContent =
  circuitId :: int
  title :: string
  description :: "string option"
  fileType :: string
  contentUrl :: string
  category :: string
  content :: "string option"

record CircuitContent = InsertCircuitContent +
  contentId :: int
  uploadedAt :: int
  isArchived :: bool

text \<open>
  The object that reaches \<open>createCircuitContent\<close> at run time. The insert type omits
  \<open>id\<close>, \<open>uploadedAt\<close> and \<open>isArchived\<close>, but types are erased: an object can carry
  them all the same, and the three options say which it carries. An object that
  \<open>insertCircuitContentSchema.parse\<close> returned carries none (\<open>plainValues\<close>): the
  schema strips the keys it does not list.
\<close>

record CircuitContentValues = InsertCircuitContent +
  carriedId :: "int option"
  carriedUploadedAt :: "int option"
  carriedIsArchived :: "bool option"

definition plainValues :: "InsertCircuitContent \<Rightarrow> CircuitContentValues" where
  "plainValues d =
     \<lparr>circuitId = circuitId d, title = title d, description = description d,
      fileType = fileType d, contentUrl = contentUrl d, category = category d,
      content = content d,
      carriedId = None, carriedUploadedAt = None, carriedIsArchived = None\<rparr>"

section \<open>Configuration mapper and prompt composer (OpenAIService)\<close>

text \<open>\<open>Array.prototype.join\<close> on an array of strings.\<close>

fun join :: "string \<Rightarrow> string list \<Rightarrow> string" where
  "join sep [] = []"
| "join sep [x] = x"
| "join sep (x # y # ys) = x @ sep @ join sep (y # ys)"

text \<open>The three \<open>switch\<close> tables; \<open>default\<close> returns the empty string.\<close>

definition teachingStyleClause :: "string \<Rightarrow> string" where
  "teachingStyleClause style =
     (if style = ''authority'' then ''direct and structured instruction''
      else if style = ''demonstrator'' then ''demonstration and guided practice''
      else if style = ''facilitator'' then ''guided inquiry and discussion''
      else if style = ''delegator'' then ''independent learning and group work''
      else if style = ''hybrid'' then ''flexible combination of teaching methods''
      else [])"

definition homeworkPolicyClause :: "string \<Rightarrow> string" where
  "homeworkPolicyClause policy =
     (if policy = ''guide'' then ''provide guidance without direct solutions''
      else if policy = ''verify'' then ''verify and confirm answer correctness''
      else if policy = ''examples'' then ''offer relevant examples''
      else if policy = ''no_solutions'' then ''encourage independent problem-solving''
      else [])"

definition responseTypeClause :: "string \<Rightarrow> string" where
  "responseTypeClause type =
     (if type = ''detailed'' then ''provide comprehensive explanations''
      else if type = ''concise'' then ''give brief, focused answers''
      else if type = ''step_by_step'' then ''break down concepts into clear steps''
      else if type = ''conceptual'' then ''emphasize underlying principles''
      else [])"

text \<open>
  \<open>xs.map(f).filter(Boolean).join(', ')\<close>: \<open>filter(Boolean)\<close> drops the empty strings,
  the only falsy strings.
\<close>

definition describeTags :: "(string \<Rightarrow> string) \<Rightarrow> string list \<Rightarrow> string" where
  "describeTags clause tags = join '', '' (filter (\<lambda>s. s \<noteq> []) (map clause tags))"

definition teachingStyleDesc :: "string list \<Rightarrow> string" where
  "teachingStyleDesc styles = describeTags teachingStyleClause styles"

definition homeworkApproach :: "string list \<Rightarrow> string" where
  "homeworkApproach policies = describeTags homeworkPolicyClause policies"

definition responseStyle :: "string list \<Rightarrow> string" where
  "responseStyle types = describeTags responseTypeClause types"

text \<open>
  \<open>CircuitContext\<close>. The optional \<open>uploadedContent?: string[]\<close> is an option:
  \<open>None\<close> is the absent property (\<open>undefined\<close>).
\<close>

record CircuitContext =
  circuit :: WisdomCircuit
  ctxTeachingStyles :: "string list"
  ctxHomeworkPolicies :: "string list"
  ctxResponseTypes :: "string list"
  ctxStateAlignment :: string
  uploadedContent :: "string list option"

definition gradeLevel :: "WisdomCircuit \<Rightarrow> string" where
  "gradeLevel c = (if grade c = ''K'' then ''Kindergarten'' else ''Grade '' @ grade c)"

definition placeholder :: string where
  "placeholder = ''No specific content uploaded yet.''"

text \<open>
  The knowledge-base section, the interpolation under the \<open>Knowledge Base:\<close> header:
  \<open>context.uploadedContent ? context.uploadedContent.join('\n') : placeholder\<close>.
  The condition tests the array for truthiness, and every array, the empty one too, is
  truthy: only the absent property takes the placeholder branch.
\<close>

definition knowledgeBase :: "CircuitContext \<Rightarrow> string" where
  "knowledgeBase ctx =
     (case uploadedContent ctx of
        Some excerpts \<Rightarrow> join ''\<newline>'' excerpts
      | None \<Rightarrow> placeholder)"

definition generateSystemPrompt :: "CircuitContext \<Rightarrow> string" where
  "generateSystemPrompt ctx =
     ''You are an educational AI assistant for '' @ gradeLevel (circuit ctx)
       @ '' students, specializing in '' @ name (circuit ctx) @ ''.\<newline>''
     @ ''Teaching Approach: Utilize '' @ teachingStyleDesc (ctxTeachingStyles ctx) @ ''.\<newline>''
     @ ''Homework Guidance: '' @ homeworkApproach (ctxHomeworkPolicies ctx) @ ''.\<newline>''
     @ ''Communication Style: '' @ responseStyle (ctxResponseTypes ctx) @ ''.\<newline>''
     @ ''State Alignment: Follow '' @ ctxStateAlignment ctx @ '' educational standards.\<newline>''
     @ ''\<newline>''
     @ ''Key Guidelines:\<newline>''
     @ ''1. Always communicate at a '' @ gradeLevel (circuit ctx) @ '' comprehension level\<newline>''
     @ ''2. Use age-appropriate examples and analogies\<newline>''
     @ ''3. Maintain a supportive and encouraging tone\<newline>''
     @ ''4. Follow the specified teaching styles and response formats\<newline>''
     @ ''5. Reference relevant uploaded content when applicable\<newline>''
     @ ''\<newline>''
     @ ''Knowledge Base:\<newline>''
     @ knowledgeBase ctx @ ''\<newline>''
     @ ''\<newline>''
     @ ''Remember to:\<newline>''
     @ ''- Keep explanations appropriate for '' @ gradeLevel (circuit ctx) @ '' students\<newline>''
     @ ''- Use the teaching styles specified: '' @ teachingStyleDesc (ctxTeachingStyles ctx) @ ''\<newline>''
     @ ''- Follow the homework policy: '' @ homeworkApproach (ctxHomeworkPolicies ctx) @ ''\<newline>''
     @ ''- Maintain the response style: '' @ responseStyle (ctxResponseTypes ctx)"

subsection \<open>The model boundary call\<close>

text \<open>
  What a handler can throw or catch: a schema validation error (with the paths of the
  fields that failed), an error of the OpenAI client (it carries the HTTP \<open>status\<close>
  and a message), and any other \<open>Error\<close> with its message. A \<open>TypeError\<close> is an
  \<open>Error\<close> without \<open>status\<close>; no handler tells the two apart.
\<close>

datatype exn =
  ZodError "string list"
| APIError int string
| Error string

text \<open>
  The chat completion the client returns: each choice carries its message's
  \<open>content\<close>, a \<open>string | null\<close>.
\<close>

record ChatCompletion =
  choices :: "string option list"

definition apology :: string where
  "apology = ''I apologize, but I couldn't generate a response. Please try rephrasing your question.''"

text \<open>
  \<open>processChatMessage\<close>. The boundary \<open>openai.chat.completions.create\<close> is the parameter
  \<open>create\<close>, from the system prompt and the user message to a completion or a thrown
  error. \<open>response.choices[0].message.content || apology\<close>: on an empty \<open>choices\<close>
  array \<open>choices[0]\<close> is \<open>undefined\<close> and reading \<open>.message\<close> throws a
  \<open>TypeError\<close> inside the \<open>try\<close>; the \<open>catch\<close> replaces every error by one fixed
  \<open>Error\<close>.
\<close>

definition processChatMessage ::
  "(string \<Rightarrow> string \<Rightarrow> exn + ChatCompletion) \<Rightarrow> string \<Rightarrow> CircuitContext \<Rightarrow> exn + string" where
  "processChatMessage create message ctx =
     (case (case create (generateSystemPrompt ctx) message of
              Inl e \<Rightarrow> Inl e
            | Inr response \<Rightarrow>
                (case choices response of
                   [] \<Rightarrow> Inl (Error ''Cannot read properties of undefined (reading 'message')'')
                 | c # _ \<Rightarrow>
                     (case c of
                        None \<Rightarrow> Inr apology
                      | Some text \<Rightarrow> Inr (if text = [] then apology else text)))) of
        Inl e \<Rightarrow> Inl (Error ''Failed to process your message. Please try again later.'')
      | Inr reply \<Rightarrow> Inr reply)"

section \<open>Storage (DatabaseStorage)\<close>

text \<open>
  The database: the two tables as lists of rows, in the order in which an unordered
  \<open>select\<close> yields them, and the sequence behind the \<open>serial\<close> column of
  \<open>circuit_content\<close>. SQL leaves the order of a query without \<open>ORDER BY\<close> open
  (a database that reuses the space of dead row versions can yield a later insert before
  an earlier one), so a state fixes the order and nothing ties it to the upload times.
\<close>

record Store =
  circuits :: "WisdomCircuit list"
  contents :: "CircuitContent list"
  nextContentId :: int

text \<open>\<open>const [row] = await db.select()...\<close>: the first row, or \<open>undefined\<close>.\<close>

definition firstRow :: "'a list \<Rightarrow> 'a option" where
  "firstRow rows = (case rows of [] \<Rightarrow> None | r # _ \<Rightarrow> Some r)"

definition getWisdomCircuit :: "Store \<Rightarrow> int \<Rightarrow> WisdomCircuit option" where
  "getWisdomCircuit s i = firstRow (filter (\<lambda>c. wcId c = i) (circuits s))"

text \<open>
  Where a scan of the table meets a newly written row is the database's choice, not the
  program's: \<open>placeRow k\<close> puts the row before the \<open>k\<close>-th row of the scan (last, for
  \<open>k\<close> beyond the end).
\<close>

definition placeRow :: "nat \<Rightarrow> 'a \<Rightarrow> 'a list \<Rightarrow> 'a list" where
  "placeRow k r rows = take k rows @ r # drop k rows"

text \<open>
  \<open>createCircuitContent\<close>: \<open>insert ... values({...content, isArchived: false})\<close>. The
  spread copies every property of the object, so a carried \<open>id\<close> or \<open>uploadedAt\<close>
  goes into the insert; \<open>isArchived: false\<close>, written after the spread, replaces a
  carried \<open>isArchived\<close>. A column without a value takes its default: the next value of
  the sequence for \<open>id\<close> (the sequence moves on, also when the insert then fails; it
  stays where it is when the id is carried) and the database clock \<open>now\<close> for
  \<open>uploadedAt\<close>. The database rejects the row when its id is in use (primary key) and
  when \<open>circuit_id\<close> names no row of \<open>wisdom_circuits\<close> (foreign key); the method
  rethrows either error (the messages are shortened here). \<open>slot\<close> is the place the
  database gives the row.
\<close>

definition createCircuitContent ::
  "Store \<Rightarrow> int \<Rightarrow> nat \<Rightarrow> CircuitContentValues \<Rightarrow> (exn + CircuitContent) \<times> Store" where
  "createCircuitContent s now slot c =
     (let s1 = (case carriedId c of
                  None \<Rightarrow> s\<lparr>nextContentId := nextContentId s + 1\<rparr>
                | Some i \<Rightarrow> s);
          newContent =
            \<lparr>circuitId = circuitId c, title = title c, description = description c,
             fileType = fileType c, contentUrl = contentUrl c, category = category c,
             content = content c,
             contentId = (case carriedId c of None \<Rightarrow> nextContentId s | Some i \<Rightarrow> i),
             uploadedAt = (case carriedUploadedAt c of None \<Rightarrow> now | Some t \<Rightarrow> t),
             isArchived = False\<rparr>
      in if contentId newContent \<in> contentId ` set (contents s)
         then (Inl (Error ''duplicate key value violates unique constraint''), s1)
         else if getWisdomCircuit s (circuitId c) = None
         then (Inl (Error ''violates foreign key constraint''), s1)
         else (Inr newContent, s1\<lparr>contents := placeRow slot newContent (contents s)\<rparr>))"

text \<open>
  \<open>getCircuitContent\<close>: \<open>where circuitId = ? and isArchived = false\<close>, with no
  \<open>orderBy\<close>.
\<close>

definition getCircuitContent :: "Store \<Rightarrow> int \<Rightarrow> CircuitContent list" where
  "getCircuitContent s cid =
     filter (\<lambda>c. circuitId c = cid \<and> isArchived c = False) (contents s)"

definition getCircuitContentById :: "Store \<Rightarrow> int \<Rightarrow> CircuitContent option" where
  "getCircuitContentById s i = firstRow (filter (\<lambda>c. contentId c = i) (contents s))"

text \<open>
  \<open>archiveCircuitContent\<close>: \<open>update ... set isArchived = true where id = ?\<close>, returning
  the first updated row (\<open>undefined\<close> when no row has the id).
\<close>

definition archiveCircuitContent :: "Store \<Rightarrow> int \<Rightarrow> CircuitContent option \<times> Store" where
  "archiveCircuitContent s i =
     (let rows = map (\<lambda>c. if contentId c = i then c\<lparr>isArchived := True\<rparr> else c) (contents s)
      in (firstRow (filter (\<lambda>c. contentId c = i) rows), s\<lparr>contents := rows\<rparr>))"

text \<open>
  \<open>deleteWisdomCircuit\<close>: two statements, not one transaction. The first deletes the
  content of the circuit; the second deletes the circuit and returns it, and the method
  throws when there was none.
\<close>

definition deleteWisdomCircuit :: "Store \<Rightarrow> int \<Rightarrow> (exn + WisdomCircuit) \<times> Store" where
  "deleteWisdomCircuit s i =
     (let s1 = s\<lparr>contents := filter (\<lambda>c. circuitId c \<noteq> i) (contents s)\<rparr>
      in case firstRow (filter (\<lambda>c. wcId c = i) (circuits s)) of
           None \<Rightarrow> (Inl (Error ''Circuit not found''), s1)
         | Some c \<Rightarrow> (Inr c, s1\<lparr>circuits := filter (\<lambda>c. wcId c \<noteq> i) (circuits s)\<rparr>))"

section \<open>Chat route (POST /api/circuit/:circuitId/chat)\<close>

text \<open>
  \<open>a || b\<close> on nullable strings: \<open>a\<close> when it is a non-empty string, else \<open>b\<close>.
  A template literal prints \<open>null\<close> as the four characters \<open>null\<close>.
\<close>

definition orElse :: "string option \<Rightarrow> string option \<Rightarrow> string option" where
  "orElse a b = (case a of None \<Rightarrow> b | Some x \<Rightarrow> (if x = [] then b else Some x))"

definition interpolate :: "string option \<Rightarrow> string" where
  "interpolate v = (case v of None \<Rightarrow> ''null'' | Some x \<Rightarrow> x)"

text \<open>\<open>a || b\<close> where \<open>b\<close> is a string literal or a string property.\<close>

definition orString :: "string option \<Rightarrow> string \<Rightarrow> string" where
  "orString a b = (case a of None \<Rightarrow> b | Some x \<Rightarrow> (if x = [] then b else x))"

text \<open>The excerpt of one item: \<open>`${c.title}:\n${c.content || c.description}`\<close>.\<close>

definition renderExcerpt :: "CircuitContent \<Rightarrow> string" where
  "renderExcerpt c = title c @ '':\<newline>'' @ interpolate (orElse (content c) (description c))"

text \<open>
  The context the route builds. The settings columns are arrays, which are truthy, so
  \<open>circuit.teachingStyles || []\<close> is the column itself; \<open>circuit.stateAlignment ||
  "General"\<close> replaces an empty string. \<open>uploadedContent\<close> is always present.
\<close>

definition chatContext :: "WisdomCircuit \<Rightarrow> CircuitContent list \<Rightarrow> CircuitContext" where
  "chatContext c rows =
     \<lparr>circuit = c,
      ctxTeachingStyles = teachingStyles c,
      ctxHomeworkPolicies = homeworkPolicies c,
      ctxResponseTypes = responseTypes c,
      ctxStateAlignment = orString (Some (stateAlignment c)) ''General'',
      uploadedContent = Some (map renderExcerpt rows)\<rparr>"

text \<open>The JSON bodies the handlers send.\<close>

datatype body =
  JsonError string
| JsonMessage string
| JsonMessageErrors string "string list"
| JsonMessageStatus string int
| JsonMessageError string string
| JsonResponse string
| JsonContent CircuitContent

record HttpResponse =
  status :: nat
  body :: body

text \<open>
  The handler, for a circuit id that \<open>parseInt\<close> read as a number; \<open>message\<close> is
  \<open>req.body.message\<close>, absent or a string. The handler only reads the store.
\<close>

definition chatRoute ::
  "(string \<Rightarrow> string \<Rightarrow> exn + ChatCompletion) \<Rightarrow> Store \<Rightarrow> int \<Rightarrow> string option \<Rightarrow> HttpResponse" where
  "chatRoute create s cid message =
     (case orElse message None of
        None \<Rightarrow> \<lparr>status = 400, body = JsonError ''Message is required''\<rparr>
      | Some m \<Rightarrow>
          (case getWisdomCircuit s cid of
             None \<Rightarrow> \<lparr>status = 404, body = JsonError ''Circuit not found''\<rparr>
           | Some c \<Rightarrow>
               (case processChatMessage create m (chatContext c (getCircuitContent s cid)) of
                  Inl e \<Rightarrow> \<lparr>status = 500, body = JsonError ''Failed to process chat message''\<rparr>
                | Inr response \<Rightarrow> \<lparr>status = 200, body = JsonResponse response\<rparr>)))"

text \<open>
  The system prompt of a chat turn: what the handler composes for the model boundary
  from the store, \<open>None\<close> when the circuit does not exist (no prompt is produced).
\<close>

definition composeChat :: "Store \<Rightarrow> int \<Rightarrow> string option" where
  "composeChat s cid =
     (case getWisdomCircuit s cid of
        None \<Rightarrow> None
      | Some c \<Rightarrow> Some (generateSystemPrompt (chatContext c (getCircuitContent s cid))))"

section \<open>Ingestion routes (routes.ts)\<close>

text \<open>
  The uploaded file as multer hands it over: the client's \<open>originalname\<close>, the
  generated \<open>filename\<close> under \<open>uploads/\<close>, and \<open>fileExtension\<close>, the value of
  \<open>path.extname(originalname).toLowerCase()\<close> (the library's result, taken as given).
\<close>

record UploadedFile =
  originalname :: string
  filename :: string
  fileExtension :: string

text \<open>
  A request to one of the two routes. \<open>circuitIdParam\<close> is \<open>parseInt\<close> of the circuit
  id (\<open>None\<close> is \<open>NaN\<close>); the three body fields are absent or strings.
\<close>

record Request =
  isAuthenticated :: bool
  isTeacher :: bool
  reqFile :: "UploadedFile option"
  circuitIdParam :: "int option"
  bodyTitle :: "string option"
  bodyDescription :: "string option"
  bodyCategory :: "string option"

text \<open>
  What \<open>fetch\<close> on the transcription endpoint gives for a PDF: it throws, or it
  resolves to a response with a status and a body; \<open>response.json()\<close> throws on a body
  that is not JSON, and \<open>result.text\<close> may be missing.
\<close>

datatype fetchResult =
  FetchFailed string
| FetchResponse nat "exn + string option"

text \<open>
  The outcomes, during one request, of what the handlers call outside the program:
  whether \<open>OPENAI_API_KEY\<close> is set, the speech-to-text call, reading the stored file,
  the PDF \<open>fetch\<close>, \<open>new Date().toLocaleString()\<close>, the database clock and the
  place the database gives a new row.
\<close>

record Env =
  apiKeyConfigured :: bool
  transcription :: "exn + string"
  readFileResult :: "exn + string"
  pdfFetch :: fetchResult
  localeNow :: string
  dbNow :: int
  dbSlot :: nat

text \<open>
  \<open>insertCircuitContentSchema.parse\<close>: the rules the schema source states for the
  fields the handlers fill in (a non-empty title, the two enumerations). It throws a
  \<open>ZodError\<close>, here with the paths of the failing fields in schema order.
\<close>

definition fileTypes :: "string list" where
  "fileTypes = [''pdf'', ''docx'', ''txt'', ''pptx'', ''transcript'']"

definition categories :: "string list" where
  "categories = [''syllabus'', ''worksheet'', ''pacing_guide'', ''lesson_plan'',
                 ''reference_material'', ''transcript'']"

definition insertCircuitContentSchema_parse :: "InsertCircuitContent \<Rightarrow> exn + InsertCircuitContent" where
  "insertCircuitContentSchema_parse d =
     (let issues =
            (if title d = [] then [''title''] else [])
          @ (if fileType d \<in> set fileTypes then [] else [''fileType''])
          @ (if category d \<in> set categories then [] else [''category''])
      in if issues = [] then Inr d else Inl (ZodError issues))"

subsection \<open>POST /api/transcribe\<close>

text \<open>The \<open>catch\<close> block of the transcription handler.\<close>

definition transcribeCatch :: "exn \<Rightarrow> HttpResponse" where
  "transcribeCatch e =
     (case e of
        ZodError issues \<Rightarrow>
          \<lparr>status = 400, body = JsonMessageErrors ''Invalid content data'' issues\<rparr>
      | APIError st msg \<Rightarrow>
          (if st = 401
           then \<lparr>status = 500, body = JsonMessage
                  ''Authentication error with transcription service. Please check API key.''\<rparr>
           else \<lparr>status = 500, body = JsonMessageStatus
                  (''OpenAI API error: '' @ (if msg = [] then ''Unknown error'' else msg)) st\<rparr>)
      | Error msg \<Rightarrow>
          \<lparr>status = 500, body = JsonMessageError
             ''Failed to process audio recording. Please try again.'' msg\<rparr>)"

definition transcriptData :: "Env \<Rightarrow> int \<Rightarrow> string \<Rightarrow> InsertCircuitContent" where
  "transcriptData env cid text =
     \<lparr>circuitId = cid,
      title = ''Class Recording Transcript - '' @ localeNow env,
      description = Some ''Automatically generated transcript from class recording'',
      fileType = ''txt'',
      contentUrl = [],
      category = ''transcript'',
      content = Some text\<rparr>"

text \<open>The body of the \<open>try\<close> after the guards: transcribe, validate, store.\<close>

definition transcribeAndStore ::
  "Env \<Rightarrow> Store \<Rightarrow> int \<Rightarrow> (exn + CircuitContent) \<times> Store" where
  "transcribeAndStore env s cid =
     (case transcription env of
        Inl e \<Rightarrow> (Inl e, s)
      | Inr text \<Rightarrow>
          (case insertCircuitContentSchema_parse (transcriptData env cid text) of
             Inl e \<Rightarrow> (Inl e, s)
           | Inr validatedContent \<Rightarrow>
               createCircuitContent s (dbNow env) (dbSlot env) (plainValues validatedContent)))"

definition transcribeRoute :: "Env \<Rightarrow> Store \<Rightarrow> Request \<Rightarrow> HttpResponse \<times> Store" where
  "transcribeRoute env s req =
     (if \<not> isAuthenticated req \<or> \<not> isTeacher req
      then (\<lparr>status = 403, body = JsonMessage ''Only teachers can upload recordings''\<rparr>, s)
      else case reqFile req of
        None \<Rightarrow> (\<lparr>status = 400, body = JsonMessage ''No audio file provided''\<rparr>, s)
      | Some f \<Rightarrow>
          (case circuitIdParam req of
             None \<Rightarrow> (\<lparr>status = 400, body = JsonMessage ''Invalid circuit ID''\<rparr>, s)
           | Some cid \<Rightarrow>
               if \<not> apiKeyConfigured env
               then (\<lparr>status = 500, body = JsonMessage
                       ''Transcription service is not configured. Please contact support.''\<rparr>, s)
               else case transcribeAndStore env s cid of
                 (Inl e, s') \<Rightarrow> (transcribeCatch e, s')
               | (Inr saved, s') \<Rightarrow> (\<lparr>status = 200, body = JsonContent saved\<rparr>, s')))"

subsection \<open>POST /api/circuit-content/:circuitId\<close>

text \<open>The \<open>switch\<close> on the extension; \<open>None\<close> is the \<open>default\<close> branch.\<close>

definition fileTypeOf :: "string \<Rightarrow> string option" where
  "fileTypeOf ext =
     (if ext = ''.pdf'' then Some ''pdf''
      else if ext = ''.doc'' \<or> ext = ''.docx'' then Some ''docx''
      else if ext = ''.txt'' then Some ''txt''
      else if ext = ''.ppt'' \<or> ext = ''.pptx'' then Some ''pptx''
      else None)"

text \<open>
  The PDF branch, inside its own \<open>try\<close>: every failure (reading the file, the
  \<open>fetch\<close>, a response that is not \<open>ok\<close>, a body that is not JSON) leaves \<open>content\<close>
  at its initial \<open>''\<close>; an \<open>ok\<close> response assigns \<open>result.text\<close>.
\<close>

definition responseOk :: "nat \<Rightarrow> bool" where
  "responseOk st = (200 \<le> st \<and> st \<le> 299)"

definition extractPdf :: "Env \<Rightarrow> string option" where
  "extractPdf env =
     (case readFileResult env of
        Inl e \<Rightarrow> Some []
      | Inr bytes \<Rightarrow>
          (case pdfFetch env of
             FetchFailed msg \<Rightarrow> Some []
           | FetchResponse st result \<Rightarrow>
               if responseOk st
               then (case result of Inl e \<Rightarrow> Some [] | Inr text \<Rightarrow> text)
               else Some []))"

text \<open>Reading the content: only the \<open>txt\<close> branch can throw into the outer \<open>catch\<close>.\<close>

definition readContent :: "Env \<Rightarrow> string \<Rightarrow> exn + string option" where
  "readContent env ft =
     (if ft = ''txt'' then (case readFileResult env of Inl e \<Rightarrow> Inl e | Inr text \<Rightarrow> Inr (Some text))
      else if ft = ''pdf'' then Inr (extractPdf env)
      else Inr (Some []))"

definition uploadData ::
  "Request \<Rightarrow> UploadedFile \<Rightarrow> int \<Rightarrow> string \<Rightarrow> string option \<Rightarrow> InsertCircuitContent" where
  "uploadData req f cid ft extracted =
     \<lparr>circuitId = cid,
      title = orString (bodyTitle req) (originalname f),
      description = Some (orString (bodyDescription req) []),
      fileType = ft,
      contentUrl = ''/uploads/'' @ filename f,
      category = orString (bodyCategory req) ''reference_material'',
      content = Some (orString extracted [])\<rparr>"

definition extractAndStore ::
  "Env \<Rightarrow> Store \<Rightarrow> Request \<Rightarrow> UploadedFile \<Rightarrow> int \<Rightarrow> string
     \<Rightarrow> (exn + CircuitContent) \<times> Store" where
  "extractAndStore env s req f cid ft =
     (case readContent env ft of
        Inl e \<Rightarrow> (Inl e, s)
      | Inr extracted \<Rightarrow>
          (case insertCircuitContentSchema_parse (uploadData req f cid ft extracted) of
             Inl e \<Rightarrow> (Inl e, s)
           | Inr validatedContent \<Rightarrow>
               createCircuitContent s (dbNow env) (dbSlot env) (plainValues validatedContent)))"

definition uploadCatch :: "exn \<Rightarrow> HttpResponse" where
  "uploadCatch e =
     (case e of
        ZodError issues \<Rightarrow>
          \<lparr>status = 400, body = JsonMessageErrors ''Invalid content data'' issues\<rparr>
      | _ \<Rightarrow> \<lparr>status = 500, body = JsonMessage ''Failed to upload content''\<rparr>)"

definition uploadRoute :: "Env \<Rightarrow> Store \<Rightarrow> Request \<Rightarrow> HttpResponse \<times> Store" where
  "uploadRoute env s req =
     (if \<not> isAuthenticated req \<or> \<not> isTeacher req
      then (\<lparr>status = 403, body = JsonMessage ''Only teachers can upload content''\<rparr>, s)
      else case circuitIdParam req of
        None \<Rightarrow> (\<lparr>status = 400, body = JsonMessage ''Invalid circuit ID''\<rparr>, s)
      | Some cid \<Rightarrow>
          (case reqFile req of
             None \<Rightarrow> (\<lparr>status = 400, body = JsonMessage ''No file uploaded''\<rparr>, s)
           | Some f \<Rightarrow>
               (case fileTypeOf (fileExtension f) of
                  None \<Rightarrow> (\<lparr>status = 400, body = JsonMessage ''Unsupported file type''\<rparr>, s)
                | Some ft \<Rightarrow>
                    (case extractAndStore env s req f cid ft of
                       (Inl e, s') \<Rightarrow> (uploadCatch e, s')
                     | (Inr saved, s') \<Rightarrow> (\<lparr>status = 200, body = JsonContent saved\<rparr>, s')))))"

section \<open>The states the program reaches\<close>

text \<open>
  The content table starts empty and only three storage methods write it:
  \<open>createCircuitContent\<close>, which nothing but the two ingestion routes calls,
  \<open>archiveCircuitContent\<close> (the \<open>DELETE /api/circuit-content/:id\<close> route) and
  \<open>deleteWisdomCircuit\<close>. The other storage methods for circuits (create, archive,
  unarchive) write \<open>wisdom_circuits\<close> alone.
\<close>

inductive reachable :: "Store \<Rightarrow> bool" where
  emptyTable: "contents s = [] \<Longrightarrow> reachable s"
| transcribed: "reachable s \<Longrightarrow> reachable (snd (transcribeRoute env s req))"
| uploaded: "reachable s \<Longrightarrow> reachable (snd (uploadRoute env s req))"
| archived: "reachable s \<Longrightarrow> reachable (snd (archiveCircuitContent s i))"
| circuitDeleted: "reachable s \<Longrightarrow> reachable (snd (deleteWisdomCircuit s i))"
| circuitsWritten: "reachable s \<Longrightarrow> reachable (s\<lparr>circuits := cs\<rparr>)"

section \<open>The excerpt as the specification words it\<close>

text \<open>
  Written from the specification, to compare \<open>renderExcerpt\<close> with: the title,
  \<open>:\n\<close>, then the extracted content; the description when the content is empty
  (\<open>NULL\<close> or \<open>''\<close>); the empty string when the description is empty too.
  \<open>textOf\<close> reads a missing text as the empty one.
\<close>

definition textOf :: "string option \<Rightarrow> string" where
  "textOf v = (case v of None \<Rightarrow> [] | Some x \<Rightarrow> x)"

definition specBody :: "string option \<Rightarrow> string option \<Rightarrow> string" where
  "specBody extracted fallback =
     (if textOf extracted \<noteq> [] then textOf extracted else textOf fallback)"

definition specExcerpt :: "CircuitContent \<Rightarrow> string" where
  "specExcerpt c = title c @ '':\<newline>'' @ specBody (content c) (description c)"

text \<open>What an excerpt is made of.\<close>

definition excerptFields :: "CircuitContent \<Rightarrow> string \<times> string option \<times> string option" where
  "excerptFields c = (title c, content c, description c)"

section \<open>Tags of the schema and example states\<close>

text \<open>The tags the schema's three enumerations admit, in the order the schema lists them.\<close>

definition knownTeachingStyles :: "string list" where
  "knownTeachingStyles =
     [''authority'', ''demonstrator'', ''facilitator'', ''delegator'', ''hybrid'']"

definition knownHomeworkPolicies :: "string list" where
  "knownHomeworkPolicies = [''guide'', ''verify'', ''examples'', ''no_solutions'']"

definition knownResponseTypes :: "string list" where
  "knownResponseTypes = [''detailed'', ''concise'', ''step_by_step'', ''conceptual'']"

text \<open>
  A kindergarten circuit with the schema's default settings, and a database that holds
  it and no content.
\<close>

definition circuitA :: WisdomCircuit where
  "circuitA =
     \<lparr>wcId = 1, name = ''Algebra'', grade = ''K'',
      teachingStyles = [''hybrid''], homeworkPolicies = [''guide''],
      responseTypes = [''detailed''], stateAlignment = ''California''\<rparr>"

definition storeA :: Store where
  "storeA = \<lparr>circuits = [circuitA], contents = [], nextContentId = 1\<rparr>"

text \<open>Content rows of circuit 1: a syllabus uploaded at time 10, a worksheet at time 20.\<close>

definition syllabus :: CircuitContent where
  "syllabus =
     \<lparr>circuitId = 1, title = ''Syllabus'', description = Some ''Course outline'',
      fileType = ''txt'', contentUrl = ''/uploads/file-1.txt'', category = ''syllabus'',
      content = Some ''Week 1: counting'',
      contentId = 1, uploadedAt = 10, isArchived = False\<rparr>"

definition worksheet :: CircuitContent where
  "worksheet =
     \<lparr>circuitId = 1, title = ''Worksheet'', description = Some [],
      fileType = ''docx'', contentUrl = ''/uploads/file-2.docx'', category = ''worksheet'',
      content = Some [],
      contentId = 2, uploadedAt = 20, isArchived = False\<rparr>"

text \<open>A database whose content table yields the later row first.\<close>

definition storeB :: Store where
  "storeB = \<lparr>circuits = [circuitA], contents = [worksheet, syllabus], nextContentId = 3\<rparr>"

text \<open>The same two rows with the earlier one first.\<close>

definition storeC :: Store where
  "storeC = \<lparr>circuits = [circuitA], contents = [syllabus, worksheet], nextContentId = 3\<rparr>"

text \<open>A third row of circuit 1, uploaded at time 30.\<close>

definition lectureNotes :: CircuitContent where
  "lectureNotes =
     \<lparr>circuitId = 1, title = ''Notes'', description = Some ''Lecture notes'',
      fileType = ''docx'', contentUrl = ''/uploads/file-3.docx'',
      category = ''reference_material'', content = Some [],
      contentId = 3, uploadedAt = 30, isArchived = False\<rparr>"

text \<open>
  A teacher's request with a PDF for circuit 1, and an environment in which the
  speech-to-text call rejects the audio and the PDF \<open>fetch\<close> answers with HTTP 500.
\<close>

definition pdfFile :: UploadedFile where
  "pdfFile = \<lparr>originalname = ''Pacing.PDF'', filename = ''file-4.PDF'', fileExtension = ''.pdf''\<rparr>"

definition teacherRequest :: Request where
  "teacherRequest =
     \<lparr>isAuthenticated = True, isTeacher = True, reqFile = Some pdfFile,
      circuitIdParam = Some 1, bodyTitle = None, bodyDescription = None,
      bodyCategory = Some ''pacing_guide''\<rparr>"

definition failingEnv :: Env where
  "failingEnv =
     \<lparr>apiKeyConfigured = True,
      transcription = Inl (APIError 400 ''Invalid file format.''),
      readFileResult = Inr ''%PDF-1.4'',
      pdfFetch = FetchResponse 500 (Inr None),
      localeNow = ''11/2/2026, 9:00:00 AM'',
      dbNow = 40,
      dbSlot = 0\<rparr>"

text \<open>
  A database that differs from \<open>storeC\<close> in an archived row and in the sequence, and
  the object of an insert that carries \<open>id: 77\<close>, an \<open>uploadedAt\<close> of 0 and
  \<open>isArchived: true\<close>.
\<close>

definition storeD :: Store where
  "storeD =
     \<lparr>circuits = [circuitA],
      contents = [syllabus, lectureNotes\<lparr>isArchived := True\<rparr>, worksheet],
      nextContentId = 9\<rparr>"

definition archivedInsert :: CircuitContentValues where
  "archivedInsert =
     \<lparr>circuitId = 1, title = ''Notes'', description = Some ''Lecture notes'',
      fileType = ''docx'', contentUrl = ''/uploads/file-3.docx'',
      category = ''reference_material'', content = Some [],
      carriedId = Some 77, carriedUploadedAt = Some 0, carriedIsArchived = Some True\<rparr>"

text \<open>A model boundary that answers every call with one choice without content.\<close>

definition silentModel :: "string \<Rightarrow> string \<Rightarrow> exn + ChatCompletion" where
  "silentModel prompt message = Inr \<lparr>choices = [None]\<rparr>"

section \<open>Helper lemmas\<close>

lemma filter_nonempty_map:
  "filter (\<lambda>s. s \<noteq> []) (map f xs) = map f (filter (\<lambda>t. f t \<noteq> []) xs)"
  by (induction xs) auto

lemma teachingStyleClause_known:
  "(teachingStyleClause t \<noteq> []) = (t \<in> set knownTeachingStyles)"
  by (simp add: teachingStyleClause_def knownTeachingStyles_def)

lemma homeworkPolicyClause_known:
  "(homeworkPolicyClause t \<noteq> []) = (t \<in> set knownHomeworkPolicies)"
  by (simp add: homeworkPolicyClause_def knownHomeworkPolicies_def)

lemma responseTypeClause_known:
  "(responseTypeClause t \<noteq> []) = (t \<in> set knownResponseTypes)"
  by (simp add: responseTypeClause_def knownResponseTypes_def)

lemma describeTags_known:
  "describeTags f tags = join '', '' (map f (filter (\<lambda>t. f t \<noteq> []) tags))"
  by (simp add: describeTags_def filter_nonempty_map)

text \<open>Archiving row \<open>j\<close> removes it from every active listing and keeps the rest in place.\<close>

lemma filter_active_after_archive:
  fixes rows :: "CircuitContent list"
  shows "filter (\<lambda>c. circuitId c = cid \<and> \<not> isArchived c)
           (map (\<lambda>c. if contentId c = j then c\<lparr>isArchived := True\<rparr> else c) rows)
         = filter (\<lambda>c. circuitId c = cid \<and> \<not> isArchived c \<and> contentId c \<noteq> j) rows"
  by (induction rows) auto

lemma getCircuitContent_archive:
  "getCircuitContent (snd (archiveCircuitContent s j)) cid
     = filter (\<lambda>r. contentId r \<noteq> j) (getCircuitContent s cid)"
  by (simp add: getCircuitContent_def archiveCircuitContent_def Let_def
      filter_active_after_archive)



lemma archive_keeps_circuits:
  "circuits (snd (archiveCircuitContent s i)) = circuits s"
  by (simp add: archiveCircuitContent_def Let_def)

text \<open>The three cases of an excerpt's body.\<close>

lemma renderExcerpt_content:
  "content c = Some x \<Longrightarrow> x \<noteq> [] \<Longrightarrow> renderExcerpt c = title c @ '':\<newline>'' @ x"
  by (simp add: renderExcerpt_def orElse_def interpolate_def)

lemma renderExcerpt_description:
  "content c = None \<or> content c = Some [] \<Longrightarrow> description c = Some d \<Longrightarrow>
     renderExcerpt c = title c @ '':\<newline>'' @ d"
  by (auto simp add: renderExcerpt_def orElse_def interpolate_def)

lemma renderExcerpt_null:
  "content c = None \<or> content c = Some [] \<Longrightarrow> description c = None \<Longrightarrow>
     renderExcerpt c = title c @ '':\<newline>null''"
  by (auto simp add: renderExcerpt_def orElse_def interpolate_def)

text \<open>
  The two branches of the knowledge-base section: the placeholder needs an absent
  \<open>uploadedContent\<close>, and the chat handler always supplies the array.
\<close>

lemma knowledgeBase_absent:
  "uploadedContent ctx = None \<Longrightarrow> knowledgeBase ctx = placeholder"
  by (simp add: knowledgeBase_def)

lemma knowledgeBase_chat:
  "knowledgeBase (chatContext c rows) = join ''\<newline>'' (map renderExcerpt rows)"
  by (simp add: knowledgeBase_def chatContext_def)

text \<open>The chat handler hands the prompt of \<open>composeChat\<close> to the model boundary.\<close>

lemma chatRoute_prompt:
  assumes "composeChat s cid = Some p" and "m \<noteq> []"
    and "create p m = Inr \<lparr>choices = [Some r]\<rparr>" and "r \<noteq> []"
  shows "chatRoute create s cid (Some m) = \<lparr>status = 200, body = JsonResponse r\<rparr>"
  using assms
  by (auto simp add: chatRoute_def composeChat_def orElse_def processChatMessage_def
      split: option.splits)

text \<open>Placing a row adds it and keeps the others in their order.\<close>

lemma set_placeRow: "set (placeRow k r rows) = insert r (set rows)"
proof -
  have "set rows = set (take k rows) \<union> set (drop k rows)"
    by (metis append_take_drop_id set_append)
  then show ?thesis
    by (auto simp add: placeRow_def)
qed

lemma filter_placeRow:
  "filter P (placeRow k r rows)
     = (if P r then placeRow (length (filter P (take k rows))) r (filter P rows)
        else filter P rows)"
proof -
  have split: "filter P rows = filter P (take k rows) @ filter P (drop k rows)"
    by (metis append_take_drop_id filter_append)
  show ?thesis
    by (simp add: placeRow_def split)
qed

text \<open>
  An insert succeeds exactly when the id of the new row is free and the circuit it
  refers to exists.
\<close>

lemma createCircuitContent_succeeds:
  "(\<exists>row s'. createCircuitContent s now slot c = (Inr row, s'))
     = ((case carriedId c of None \<Rightarrow> nextContentId s | Some i \<Rightarrow> i) \<notin> contentId ` set (contents s)
        \<and> getWisdomCircuit s (circuitId c) \<noteq> None)"
  by (auto simp add: createCircuitContent_def Let_def)

text \<open>What an insert of a validated object does to the store.\<close>

lemma createCircuitContent_plain:
  fixes s now slot d
  defines "s' \<equiv> snd (createCircuitContent s now slot (plainValues d))"
  shows "circuits s' = circuits s \<and> nextContentId s' = nextContentId s + 1
         \<and> (contents s' = contents s
            \<or> (\<exists>row. contents s' = placeRow slot row (contents s)
                  \<and> description row = description d \<and> content row = content d
                  \<and> contentId row = nextContentId s))"
  unfolding s'_def
  by (auto simp add: createCircuitContent_def plainValues_def Let_def)

lemma parse_returns_argument:
  "insertCircuitContentSchema_parse d = Inr v \<Longrightarrow> v = d"
  by (auto simp add: insertCircuitContentSchema_parse_def Let_def split: if_splits)

lemma transcribeRoute_store:
  "snd (transcribeRoute env s req) = s
   \<or> (\<exists>d. description d \<noteq> None \<and> content d \<noteq> None
         \<and> snd (transcribeRoute env s req)
             = snd (createCircuitContent s (dbNow env) (dbSlot env) (plainValues d)))"
proof (cases "\<exists>cid transcript. isAuthenticated req \<and> isTeacher req \<and> reqFile req \<noteq> None
    \<and> circuitIdParam req = Some cid \<and> apiKeyConfigured env \<and> transcription env = Inr transcript
    \<and> insertCircuitContentSchema_parse (transcriptData env cid transcript)
        = Inr (transcriptData env cid transcript)")
  case True
  then obtain cid transcript where h: "isAuthenticated req" "isTeacher req" "reqFile req \<noteq> None"
    "circuitIdParam req = Some cid" "apiKeyConfigured env" "transcription env = Inr transcript"
    "insertCircuitContentSchema_parse (transcriptData env cid transcript)
       = Inr (transcriptData env cid transcript)"
    by blast
  have "snd (transcribeRoute env s req)
      = snd (createCircuitContent s (dbNow env) (dbSlot env)
               (plainValues (transcriptData env cid transcript)))"
    using h by (auto simp add: transcribeRoute_def transcribeAndStore_def
        split: prod.splits sum.splits)
  moreover have "description (transcriptData env cid transcript) \<noteq> None"
    and "content (transcriptData env cid transcript) \<noteq> None"
    by (simp_all add: transcriptData_def)
  ultimately show ?thesis by blast
next
  case False
  then have "snd (transcribeRoute env s req) = s"
    by (auto simp add: transcribeRoute_def transcribeAndStore_def
        dest: parse_returns_argument split: option.splits sum.splits prod.splits)
  then show ?thesis by simp
qed

lemma uploadRoute_store:
  "snd (uploadRoute env s req) = s
   \<or> (\<exists>d. description d \<noteq> None \<and> content d \<noteq> None
         \<and> snd (uploadRoute env s req)
             = snd (createCircuitContent s (dbNow env) (dbSlot env) (plainValues d)))"
proof (cases "\<exists>cid f ft extracted. isAuthenticated req \<and> isTeacher req
    \<and> circuitIdParam req = Some cid \<and> reqFile req = Some f
    \<and> fileTypeOf (fileExtension f) = Some ft \<and> readContent env ft = Inr extracted
    \<and> insertCircuitContentSchema_parse (uploadData req f cid ft extracted)
        = Inr (uploadData req f cid ft extracted)")
  case True
  then obtain cid f ft extracted where h: "isAuthenticated req" "isTeacher req"
    "circuitIdParam req = Some cid" "reqFile req = Some f"
    "fileTypeOf (fileExtension f) = Some ft" "readContent env ft = Inr extracted"
    "insertCircuitContentSchema_parse (uploadData req f cid ft extracted)
       = Inr (uploadData req f cid ft extracted)"
    by blast
  have "snd (uploadRoute env s req)
      = snd (createCircuitContent s (dbNow env) (dbSlot env)
               (plainValues (uploadData req f cid ft extracted)))"
    using h by (auto simp add: uploadRoute_def extractAndStore_def
        split: prod.splits sum.splits)
  moreover have "description (uploadData req f cid ft extracted) \<noteq> None"
    and "content (uploadData req f cid ft extracted) \<noteq> None"
    by (simp_all add: uploadData_def)
  ultimately show ?thesis by blast
next
  case False
  then have "snd (uploadRoute env s req) = s"
    by (auto simp add: uploadRoute_def extractAndStore_def
        dest: parse_returns_argument split: option.splits sum.splits prod.splits)
  then show ?thesis by simp
qed

lemma reachable_rows_described:
  "reachable s \<Longrightarrow> \<forall>c \<in> set (contents s). description c \<noteq> None \<and> content c \<noteq> None"
proof (induction rule: reachable.induct)
  case (emptyTable s)
  then show ?case by simp
next
  case (transcribed s env req)
  show ?case
  proof (cases "snd (transcribeRoute env s req) = s")
    case True
    then show ?thesis using transcribed.IH by simp
  next
    case False
    then obtain d where d: "description d \<noteq> None" "content d \<noteq> None"
      "snd (transcribeRoute env s req)
         = snd (createCircuitContent s (dbNow env) (dbSlot env) (plainValues d))"
      using transcribeRoute_store [of env s req] by blast
    show ?thesis
      using createCircuitContent_plain [of s "dbNow env" "dbSlot env" d] d transcribed.IH
      by (auto simp add: set_placeRow)
  qed
next
  case (uploaded s env req)
  show ?case
  proof (cases "snd (uploadRoute env s req) = s")
    case True
    then show ?thesis using uploaded.IH by simp
  next
    case False
    then obtain d where d: "description d \<noteq> None" "content d \<noteq> None"
      "snd (uploadRoute env s req)
         = snd (createCircuitContent s (dbNow env) (dbSlot env) (plainValues d))"
      using uploadRoute_store [of env s req] by blast
    show ?thesis
      using createCircuitContent_plain [of s "dbNow env" "dbSlot env" d] d uploaded.IH
      by (auto simp add: set_placeRow)
  qed
next
  case (archived s i)
  then show ?case
    by (auto simp add: archiveCircuitContent_def Let_def)
next
  case (circuitDeleted s i)
  then show ?case
    by (auto simp add: deleteWisdomCircuit_def Let_def split: option.splits)
next
  case (circuitsWritten s cs)
  then show ?case by simp
qed

lemma insert_keeps_ids_below_sequence:
  assumes "\<forall>c \<in> set (contents s). contentId c < nextContentId s"
  shows "\<forall>c \<in> set (contents (snd (createCircuitContent s now slot (plainValues d)))).
           contentId c < nextContentId (snd (createCircuitContent s now slot (plainValues d)))"
proof
  fix c
  let ?s' = "snd (createCircuitContent s now slot (plainValues d))"
  assume c: "c \<in> set (contents ?s')"
  note step = createCircuitContent_plain [of s now slot d]
  from step have next': "nextContentId ?s' = nextContentId s + 1"
    by simp
  from step have "contents ?s' = contents s
      \<or> (\<exists>row. contents ?s' = placeRow slot row (contents s)
            \<and> contentId row = nextContentId s)"
    by blast
  then have "c \<in> set (contents s) \<or> contentId c = nextContentId s"
    using c by (auto simp add: set_placeRow)
  then have "contentId c \<le> nextContentId s"
    using assms by (metis less_imp_le order_refl)
  then show "contentId c < nextContentId ?s'"
    using next' by simp
qed

lemma reachable_ids_below_sequence:
  "reachable s \<Longrightarrow> \<forall>c \<in> set (contents s). contentId c < nextContentId s"
proof (induction rule: reachable.induct)
  case (emptyTable s)
  then show ?case by simp
next
  case (transcribed s env req)
  show ?case
  proof (cases "snd (transcribeRoute env s req) = s")
    case True
    then show ?thesis using transcribed.IH by simp
  next
    case False
    then obtain d where
      "snd (transcribeRoute env s req)
         = snd (createCircuitContent s (dbNow env) (dbSlot env) (plainValues d))"
      using transcribeRoute_store [of env s req] by blast
    then show ?thesis
      using insert_keeps_ids_below_sequence [OF transcribed.IH] by simp
  qed
next
  case (uploaded s env req)
  show ?case
  proof (cases "snd (uploadRoute env s req) = s")
    case True
    then show ?thesis using uploaded.IH by simp
  next
    case False
    then obtain d where
      "snd (uploadRoute env s req)
         = snd (createCircuitContent s (dbNow env) (dbSlot env) (plainValues d))"
      using uploadRoute_store [of env s req] by blast
    then show ?thesis
      using insert_keeps_ids_below_sequence [OF uploaded.IH] by simp
  qed
next
  case (archived s i)
  then show ?case
    by (auto simp add: archiveCircuitContent_def Let_def)
next
  case (circuitDeleted s i)
  then show ?case
    by (auto simp add: deleteWisdomCircuit_def Let_def split: option.splits)
next
  case (circuitsWritten s cs)
  then show ?case by simp
qed

lemma reachable_sequence_free:
  assumes "reachable s"
  shows "nextContentId s \<notin> contentId ` set (contents s)"
proof
  assume "nextContentId s \<in> contentId ` set (contents s)"
  then obtain c where "c \<in> set (contents s)" and "contentId c = nextContentId s"
    by auto
  then show False
    using reachable_ids_below_sequence [OF assms] by auto
qed

text \<open>With a description, the excerpt is the one the specification words.\<close>

lemma renderExcerpt_as_specified:
  "description c \<noteq> None \<Longrightarrow> renderExcerpt c = specExcerpt c"
  by (cases "content c"; cases "description c")
     (simp_all add: renderExcerpt_def specExcerpt_def specBody_def textOf_def orElse_def
        interpolate_def)

text \<open>An excerpt is made of three fields of its row.\<close>

lemma renderExcerpt_fields:
  "excerptFields c = excerptFields c' \<Longrightarrow> renderExcerpt c = renderExcerpt c'"
  by (simp add: renderExcerpt_def excerptFields_def)

lemma map_renderExcerpt_fields:
  "map excerptFields rows = map excerptFields rows' \<Longrightarrow>
     map renderExcerpt rows = map renderExcerpt rows'"
proof (induction rows arbitrary: rows')
  case Nil
  then show ?case by simp
next
  case (Cons r rows)
  then obtain r' rest where rows': "rows' = r' # rest"
    by (cases rows') simp_all
  with Cons.prems have "excerptFields r = excerptFields r'"
    and "map excerptFields rows = map excerptFields rest"
    by simp_all
  then show ?case
    using Cons.IH [of rest] renderExcerpt_fields [of r r'] rows' by simp
qed

text \<open>An element of a joined list, and the knowledge base, are parts of the prompt.\<close>

lemma sublist_prepend:
  assumes "sublist xs ys"
  shows "sublist xs (zs @ ys)"
proof -
  from assms obtain ps ss where "ys = ps @ xs @ ss"
    unfolding sublist_def by blast
  then have "zs @ ys = (zs @ ps) @ xs @ ss"
    by simp
  then show ?thesis
    unfolding sublist_def by blast
qed

lemma sublist_join: "x \<in> set xs \<Longrightarrow> sublist x (join sep xs)"
proof (induction sep xs rule: join.induct)
  case (1 sep)
  then show ?case by simp
next
  case (2 sep y)
  then show ?case by simp
next
  case (3 sep y z zs)
  show ?case
  proof (cases "x = y")
    case True
    then show ?thesis by simp
  next
    case False
    then have "sublist x (join sep (z # zs))"
      using 3 by simp
    then have "sublist x (y @ sep @ join sep (z # zs))"
      by (intro sublist_prepend)
    then show ?thesis by simp
  qed
qed

lemma knowledgeBase_in_prompt: "sublist (knowledgeBase ctx) (generateSystemPrompt ctx)"
  unfolding generateSystemPrompt_def
  by (intro sublist_prepend sublist_append_rightI)

lemma excerpt_in_prompt:
  assumes "row \<in> set rows"
  shows "sublist (renderExcerpt row) (generateSystemPrompt (chatContext c rows))"
proof -
  have "sublist (renderExcerpt row) (join ''\<newline>'' (map renderExcerpt rows))"
    using assms by (intro sublist_join) simp
  then have "sublist (renderExcerpt row) (knowledgeBase (chatContext c rows))"
    by (simp add: knowledgeBase_def chatContext_def)
  then obtain ps ss where "knowledgeBase (chatContext c rows) = ps @ renderExcerpt row @ ss"
    unfolding sublist_def by blast
  moreover obtain qs ts where
    "generateSystemPrompt (chatContext c rows) = qs @ knowledgeBase (chatContext c rows) @ ts"
    using knowledgeBase_in_prompt [of "chatContext c rows"] unfolding sublist_def by blast
  ultimately have "generateSystemPrompt (chatContext c rows)
      = (qs @ ps) @ renderExcerpt row @ (ss @ ts)"
    by simp
  then show ?thesis
    unfolding sublist_def by blast
qed

text \<open>
  The later-first table of \<open>storeB\<close> is a state the program reaches: two uploads to
  the empty table of \<open>storeA\<close>, the second of which the database places first.
\<close>

lemma storeB_reachable: "reachable storeB"
proof -
  define req1 :: Request where "req1 =
    \<lparr>isAuthenticated = True, isTeacher = True,
     reqFile = Some \<lparr>originalname = ''Syllabus.txt'', filename = ''file-1.txt'',
                     fileExtension = ''.txt''\<rparr>,
     circuitIdParam = Some 1, bodyTitle = Some ''Syllabus'',
     bodyDescription = Some ''Course outline'', bodyCategory = Some ''syllabus''\<rparr>"
  define env1 :: Env where "env1 =
    \<lparr>apiKeyConfigured = True, transcription = Inr [],
     readFileResult = Inr ''Week 1: counting'', pdfFetch = FetchFailed [],
     localeNow = [], dbNow = 10, dbSlot = 0\<rparr>"
  define req2 :: Request where "req2 =
    \<lparr>isAuthenticated = True, isTeacher = True,
     reqFile = Some \<lparr>originalname = ''Worksheet.docx'', filename = ''file-2.docx'',
                     fileExtension = ''.docx''\<rparr>,
     circuitIdParam = Some 1, bodyTitle = Some ''Worksheet'',
     bodyDescription = None, bodyCategory = Some ''worksheet''\<rparr>"
  define env2 :: Env where "env2 =
    \<lparr>apiKeyConfigured = True, transcription = Inr [],
     readFileResult = Inr [], pdfFetch = FetchFailed [],
     localeNow = [], dbNow = 20, dbSlot = 0\<rparr>"
  have first: "snd (uploadRoute env1 storeA req1)
      = \<lparr>circuits = [circuitA], contents = [syllabus], nextContentId = 2\<rparr>"
    by (simp add: uploadRoute_def req1_def env1_def storeA_def circuitA_def syllabus_def
        fileTypeOf_def extractAndStore_def readContent_def
        insertCircuitContentSchema_parse_def uploadData_def orString_def fileTypes_def
        categories_def createCircuitContent_def plainValues_def placeRow_def
        getWisdomCircuit_def firstRow_def Let_def)
  have second: "snd (uploadRoute env2
        \<lparr>circuits = [circuitA], contents = [syllabus], nextContentId = 2\<rparr> req2) = storeB"
    by (simp add: uploadRoute_def req2_def env2_def storeB_def circuitA_def syllabus_def
        worksheet_def fileTypeOf_def extractAndStore_def readContent_def
        insertCircuitContentSchema_parse_def uploadData_def orString_def fileTypes_def
        categories_def createCircuitContent_def plainValues_def placeRow_def
        getWisdomCircuit_def firstRow_def Let_def)
  have "reachable storeA"
    by (rule reachable.emptyTable) (simp add: storeA_def)
  then have "reachable (snd (uploadRoute env1 storeA req1))"
    by (rule reachable.uploaded)
  then have "reachable (snd (uploadRoute env2 (snd (uploadRoute env1 storeA req1)) req2))"
    by (rule reachable.uploaded)
  then show ?thesis
    by (simp only: first second)
qed

section \<open>The claims\<close>

text \<open>
  Claim C1: for a circuit without active content the knowledge-base section of the
  composed prompt is the placeholder sentence, never the empty string. The chat handler
  does not do this. For the circuit of \<open>storeA\<close>, which has no content, it passes
  the empty array as \<open>uploadedContent\<close>; the array is truthy, so the section is
  \<open>[].join('\n')\<close>, the empty string, and the placeholder is not used.
\<close>

theorem knowledgeBase_empty_for_no_content:
  "getCircuitContent storeA 1 = []
   \<and> knowledgeBase (chatContext circuitA (getCircuitContent storeA 1)) = []
   \<and> knowledgeBase (chatContext circuitA (getCircuitContent storeA 1)) \<noteq> placeholder
   \<and> composeChat storeA 1 = Some
       (''You are an educational AI assistant for Kindergarten students, specializing in Algebra.\<newline>''
        @ ''Teaching Approach: Utilize flexible combination of teaching methods.\<newline>''
        @ ''Homework Guidance: provide guidance without direct solutions.\<newline>''
        @ ''Communication Style: provide comprehensive explanations.\<newline>''
        @ ''State Alignment: Follow California educational standards.\<newline>''
        @ ''\<newline>''
        @ ''Key Guidelines:\<newline>''
        @ ''1. Always communicate at a Kindergarten comprehension level\<newline>''
        @ ''2. Use age-appropriate examples and analogies\<newline>''
        @ ''3. Maintain a supportive and encouraging tone\<newline>''
        @ ''4. Follow the specified teaching styles and response formats\<newline>''
        @ ''5. Reference relevant uploaded content when applicable\<newline>''
        @ ''\<newline>''
        @ ''Knowledge Base:\<newline>''
        @ ''\<newline>''
        @ ''\<newline>''
        @ ''Remember to:\<newline>''
        @ ''- Keep explanations appropriate for Kindergarten students\<newline>''
        @ ''- Use the teaching styles specified: flexible combination of teaching methods\<newline>''
        @ ''- Follow the homework policy: provide guidance without direct solutions\<newline>''
        @ ''- Maintain the response style: provide comprehensive explanations'')"
  by (simp add: composeChat_def getWisdomCircuit_def firstRow_def storeA_def circuitA_def
      generateSystemPrompt_def chatContext_def getCircuitContent_def knowledgeBase_def
      gradeLevel_def teachingStyleDesc_def homeworkApproach_def responseStyle_def
      describeTags_def teachingStyleClause_def homeworkPolicyClause_def
      responseTypeClause_def orString_def placeholder_def)

text \<open>
  Claim C2 as stated fails: two presentations of one set of teaching styles give two
  different sentences, so neither order-independence nor a canonical clause order holds.
\<close>

theorem mapper_depends_on_input_order:
  "set [''authority'', ''hybrid''] = set [''hybrid'', ''authority'']
   \<and> teachingStyleDesc [''authority'', ''hybrid'']
       = ''direct and structured instruction, flexible combination of teaching methods''
   \<and> teachingStyleDesc [''hybrid'', ''authority'']
       = ''flexible combination of teaching methods, direct and structured instruction''
   \<and> teachingStyleDesc [''authority'', ''hybrid'']
       \<noteq> teachingStyleDesc [''hybrid'', ''authority'']"
  by (simp add: teachingStyleDesc_def describeTags_def teachingStyleClause_def insert_commute)

text \<open>
  Claim C2, amended: for each of the three settings collections the sentence is
  determined by the input sequence, and its comma-joined clauses are those of the
  sequence's known tags in input order (repetitions kept, unknown tags dropped).
\<close>

theorem mapper_clauses_in_input_order:
  "teachingStyleDesc styles =
     join '', '' (map teachingStyleClause (filter (\<lambda>t. t \<in> set knownTeachingStyles) styles))
   \<and> homeworkApproach policies =
     join '', '' (map homeworkPolicyClause (filter (\<lambda>t. t \<in> set knownHomeworkPolicies) policies))
   \<and> responseStyle types =
     join '', '' (map responseTypeClause (filter (\<lambda>t. t \<in> set knownResponseTypes) types))"
  by (simp add: teachingStyleDesc_def homeworkApproach_def responseStyle_def
      describeTags_known teachingStyleClause_known homeworkPolicyClause_known
      responseTypeClause_known)

text \<open>
  Claim C3 as stated fails: the content query has no ordering of its own. In \<open>storeB\<close>
  the table yields the worksheet (uploaded at 20) before the syllabus (uploaded at 10),
  both active, and the excerpts reach the knowledge-base section of the prompt in that
  order, newest first.
\<close>

theorem excerpts_not_in_upload_order:
  "length (getCircuitContent storeB 1) = 2
   \<and> map uploadedAt (getCircuitContent storeB 1) = [20, 10]
   \<and> \<not> sorted (map uploadedAt (getCircuitContent storeB 1))
   \<and> uploadedContent (chatContext circuitA (getCircuitContent storeB 1))
       = Some [''Worksheet:\<newline>'', ''Syllabus:\<newline>Week 1: counting'']
   \<and> knowledgeBase (chatContext circuitA (getCircuitContent storeB 1))
       = ''Worksheet:\<newline>\<newline>Syllabus:\<newline>Week 1: counting''"
  by (simp add: getCircuitContent_def storeB_def worksheet_def syllabus_def chatContext_def
      knowledgeBase_def renderExcerpt_def orElse_def interpolate_def)

text \<open>
  Claim C3, amended: the excerpts of a circuit appear in the order in which the content
  table yields its active rows (no ordering by upload time is applied: they ascend in
  upload time when the table's rows do), the knowledge-base section of the prompt is
  these excerpts joined in that order, and archiving an item leaves the other excerpts
  of every circuit in their order.
\<close>

theorem excerpts_in_table_order:
  "subseq (getCircuitContent s cid) (contents s)
   \<and> uploadedContent (chatContext c (getCircuitContent s cid))
       = Some (map renderExcerpt (getCircuitContent s cid))
   \<and> knowledgeBase (chatContext c (getCircuitContent s cid))
       = join ''\<newline>'' (map renderExcerpt (getCircuitContent s cid))
   \<and> (sorted (map uploadedAt (contents s))
        \<longrightarrow> sorted (map uploadedAt (getCircuitContent s cid)))
   \<and> getCircuitContent (snd (archiveCircuitContent s j)) cid
       = filter (\<lambda>r. contentId r \<noteq> j) (getCircuitContent s cid)"
proof -
  have "subseq (getCircuitContent s cid) (contents s)"
    by (simp add: getCircuitContent_def)
  moreover have "uploadedContent (chatContext c (getCircuitContent s cid))
      = Some (map renderExcerpt (getCircuitContent s cid))"
    by (simp add: chatContext_def)
  moreover have "knowledgeBase (chatContext c (getCircuitContent s cid))
      = join ''\<newline>'' (map renderExcerpt (getCircuitContent s cid))"
    by (rule knowledgeBase_chat)
  moreover have "sorted (map uploadedAt (contents s))
      \<longrightarrow> sorted (map uploadedAt (getCircuitContent s cid))"
    by (simp add: getCircuitContent_def sorted_filter)
  ultimately show ?thesis
    using getCircuitContent_archive [of s j cid] by simp
qed

theorem excerpts_in_table_order_witness:
  "sorted (map uploadedAt (contents storeC))
   \<and> map uploadedAt (getCircuitContent storeC 1) = [10, 20]
   \<and> sorted (map uploadedAt (getCircuitContent storeC 1))
   \<and> getCircuitContent (snd (archiveCircuitContent storeC 1)) 1 = [worksheet]"
proof -
  have h: "sorted (map uploadedAt (contents storeC))"
    by (simp add: storeC_def syllabus_def worksheet_def)
  have rows: "getCircuitContent storeC 1 = [syllabus, worksheet]"
    by (simp add: getCircuitContent_def storeC_def syllabus_def worksheet_def)
  have "sorted (map uploadedAt (getCircuitContent storeC 1))"
    and "getCircuitContent (snd (archiveCircuitContent storeC 1)) 1
         = filter (\<lambda>r. contentId r \<noteq> 1) (getCircuitContent storeC 1)"
    using excerpts_in_table_order [of storeC 1 circuitA 1] h by simp_all
  then show ?thesis
    using h by (simp add: rows syllabus_def worksheet_def)
qed



text \<open>
  Claim C5 as stated fails: the settings and the set of active items do not determine
  the prompt. \<open>storeB\<close> and \<open>storeC\<close> hold the same circuit row and the same two
  active items; the content query yields them in different orders and the two prompts
  differ.
\<close>

theorem same_items_other_order_other_prompt:
  "getWisdomCircuit storeB 1 = getWisdomCircuit storeC 1
   \<and> set (getCircuitContent storeB 1) = set (getCircuitContent storeC 1)
   \<and> knowledgeBase (chatContext circuitA (getCircuitContent storeB 1))
       = ''Worksheet:\<newline>\<newline>Syllabus:\<newline>Week 1: counting''
   \<and> knowledgeBase (chatContext circuitA (getCircuitContent storeC 1))
       = ''Syllabus:\<newline>Week 1: counting\<newline>Worksheet:\<newline>''
   \<and> composeChat storeB 1 \<noteq> composeChat storeC 1"
proof -
  have c: "getWisdomCircuit storeB 1 = Some circuitA" "getWisdomCircuit storeC 1 = Some circuitA"
    by (simp_all add: getWisdomCircuit_def firstRow_def storeB_def storeC_def circuitA_def)
  have b: "getCircuitContent storeB 1 = [worksheet, syllabus]"
    by (simp add: getCircuitContent_def storeB_def syllabus_def worksheet_def)
  have d: "getCircuitContent storeC 1 = [syllabus, worksheet]"
    by (simp add: getCircuitContent_def storeC_def syllabus_def worksheet_def)
  have kb: "knowledgeBase (chatContext circuitA [worksheet, syllabus])
      = ''Worksheet:\<newline>\<newline>Syllabus:\<newline>Week 1: counting''"
    by (simp add: knowledgeBase_chat renderExcerpt_def orElse_def interpolate_def
        worksheet_def syllabus_def)
  have kc: "knowledgeBase (chatContext circuitA [syllabus, worksheet])
      = ''Syllabus:\<newline>Week 1: counting\<newline>Worksheet:\<newline>''"
    by (simp add: knowledgeBase_chat renderExcerpt_def orElse_def interpolate_def
        worksheet_def syllabus_def)
  have "generateSystemPrompt (chatContext circuitA [worksheet, syllabus])
      \<noteq> generateSystemPrompt (chatContext circuitA [syllabus, worksheet])"
    by (simp add: generateSystemPrompt_def chatContext_def knowledgeBase_def renderExcerpt_def
        orElse_def interpolate_def worksheet_def syllabus_def)
  then have "composeChat storeB 1 \<noteq> composeChat storeC 1"
    by (simp add: composeChat_def c b d)
  then show ?thesis
    using c b d kb kc by auto
qed

text \<open>
  Claim C5, amended: composition is deterministic in the circuit's row and the listing
  of its active items in the order the content query yields it. Two database states
  that give the same circuit row and, row by row, the same title, content and
  description of the active items (in particular one state read twice) give
  byte-identical prompts, and for a given model boundary the same response, whatever
  else differs between them.
\<close>

theorem composition_determined_by_circuit_and_listing:
  assumes "getWisdomCircuit s cid = getWisdomCircuit s' cid"
    and "map excerptFields (getCircuitContent s cid) = map excerptFields (getCircuitContent s' cid)"
  shows "composeChat s cid = composeChat s' cid
         \<and> chatRoute create s cid message = chatRoute create s' cid message"
proof -
  have "map renderExcerpt (getCircuitContent s cid) = map renderExcerpt (getCircuitContent s' cid)"
    using assms(2) by (rule map_renderExcerpt_fields)
  then have "chatContext c (getCircuitContent s cid) = chatContext c (getCircuitContent s' cid)" for c
    by (simp add: chatContext_def)
  then show ?thesis
    using assms(1) by (simp add: composeChat_def chatRoute_def cong: option.case_cong)
qed

theorem composition_determined_witness:
  "storeC \<noteq> storeD
   \<and> getWisdomCircuit storeC 1 = getWisdomCircuit storeD 1
   \<and> map excerptFields (getCircuitContent storeC 1) = map excerptFields (getCircuitContent storeD 1)
   \<and> composeChat storeC 1 = composeChat storeD 1
   \<and> chatRoute silentModel storeC 1 (Some ''hello'') = chatRoute silentModel storeD 1 (Some ''hello'')"
proof -
  have c: "getWisdomCircuit storeC 1 = getWisdomCircuit storeD 1"
    by (simp add: getWisdomCircuit_def storeC_def storeD_def)
  have r: "map excerptFields (getCircuitContent storeC 1)
      = map excerptFields (getCircuitContent storeD 1)"
    by (simp add: getCircuitContent_def storeC_def storeD_def syllabus_def worksheet_def
        lectureNotes_def)
  have d: "storeC \<noteq> storeD"
    by (simp add: storeC_def storeD_def)
  show ?thesis
    using composition_determined_by_circuit_and_listing
            [OF c r, of silentModel "Some ''hello''"] c r d
    by simp
qed

text \<open>
  Claim C6: the excerpt of an active item is its title, \<open>:\n\<close>, and the extracted
  content, or the description when the content is empty, or the empty string when both
  are empty. This holds of every item in every state the program reaches: the routes
  store a string as description (the empty one when none is sent), so \<open>content ||
  description\<close> is always a string, and the knowledge-base section is the specified
  excerpts joined.
\<close>

theorem excerpts_rendered_as_specified:
  assumes "reachable s"
  shows "(\<forall>c \<in> set (getCircuitContent s cid). renderExcerpt c = specExcerpt c)
         \<and> knowledgeBase (chatContext circ (getCircuitContent s cid))
             = join ''\<newline>'' (map specExcerpt (getCircuitContent s cid))"
proof -
  have rows: "\<forall>c \<in> set (getCircuitContent s cid). renderExcerpt c = specExcerpt c"
  proof
    fix c
    assume "c \<in> set (getCircuitContent s cid)"
    then have "c \<in> set (contents s)"
      by (simp add: getCircuitContent_def)
    then have "description c \<noteq> None"
      using reachable_rows_described [OF assms] by blast
    then show "renderExcerpt c = specExcerpt c"
      by (rule renderExcerpt_as_specified)
  qed
  then have m: "map renderExcerpt (getCircuitContent s cid)
      = map specExcerpt (getCircuitContent s cid)"
    by simp
  have "knowledgeBase (chatContext circ (getCircuitContent s cid))
      = join ''\<newline>'' (map specExcerpt (getCircuitContent s cid))"
    by (simp only: knowledgeBase_chat m)
  with rows show ?thesis
    by blast
qed

theorem excerpts_rendered_as_specified_witness:
  "reachable (snd (uploadRoute failingEnv storeA teacherRequest))
   \<and> map renderExcerpt (getCircuitContent (snd (uploadRoute failingEnv storeA teacherRequest)) 1)
       = [''Pacing.PDF:\<newline>'']
   \<and> map specExcerpt (getCircuitContent (snd (uploadRoute failingEnv storeA teacherRequest)) 1)
       = [''Pacing.PDF:\<newline>'']
   \<and> knowledgeBase (chatContext circuitA
         (getCircuitContent (snd (uploadRoute failingEnv storeA teacherRequest)) 1))
       = ''Pacing.PDF:\<newline>''"
proof -
  let ?s = "snd (uploadRoute failingEnv storeA teacherRequest)"
  have "reachable storeA"
    by (rule reachable.emptyTable) (simp add: storeA_def)
  then have r: "reachable ?s"
    by (rule reachable.uploaded)
  have rows: "map renderExcerpt (getCircuitContent ?s 1) = [''Pacing.PDF:\<newline>'']"
    by (simp add: uploadRoute_def teacherRequest_def pdfFile_def failingEnv_def storeA_def
        circuitA_def fileTypeOf_def extractAndStore_def readContent_def extractPdf_def
        responseOk_def insertCircuitContentSchema_parse_def uploadData_def orString_def
        fileTypes_def categories_def createCircuitContent_def plainValues_def placeRow_def
        getWisdomCircuit_def firstRow_def getCircuitContent_def renderExcerpt_def
        orElse_def interpolate_def Let_def)
  from excerpts_rendered_as_specified [OF r, of 1 circuitA]
  have eq: "map renderExcerpt (getCircuitContent ?s 1) = map specExcerpt (getCircuitContent ?s 1)"
    and kb: "knowledgeBase (chatContext circuitA (getCircuitContent ?s 1))
         = join ''\<newline>'' (map specExcerpt (getCircuitContent ?s 1))"
    by simp_all
  have sp: "map specExcerpt (getCircuitContent ?s 1) = [''Pacing.PDF:\<newline>'']"
    using eq rows by (rule trans [OF sym])
  have "knowledgeBase (chatContext circuitA (getCircuitContent ?s 1)) = ''Pacing.PDF:\<newline>''"
    unfolding kb sp by simp
  then show ?thesis
    using r rows sp by blast
qed

text \<open>
  Claim C7: when the speech-to-text call fails, the transcription route answers with an
  error and creates no content item. Whatever the request, the store is unchanged and
  the response is an error (a status of 400 or more, never a content row); for a
  request that reaches the call the response is the one the \<open>catch\<close> block builds
  from the thrown error.
\<close>

theorem failed_transcription_stores_nothing:
  assumes "transcription env = Inl e"
  shows "snd (transcribeRoute env s req) = s
         \<and> 400 \<le> status (fst (transcribeRoute env s req))
         \<and> (\<forall>c. body (fst (transcribeRoute env s req)) \<noteq> JsonContent c)
         \<and> (isAuthenticated req \<and> isTeacher req \<and> reqFile req \<noteq> None
              \<and> circuitIdParam req \<noteq> None \<and> apiKeyConfigured env
             \<longrightarrow> fst (transcribeRoute env s req) = transcribeCatch e)"
  using assms
  by (auto simp add: transcribeRoute_def transcribeAndStore_def transcribeCatch_def
      split: option.splits exn.splits)

theorem failed_transcription_witness:
  "transcription failingEnv = Inl (APIError 400 ''Invalid file format.'')
   \<and> transcribeRoute failingEnv storeA teacherRequest
       = (\<lparr>status = 500,
           body = JsonMessageStatus ''OpenAI API error: Invalid file format.'' 400\<rparr>, storeA)"
proof -
  have h: "transcription failingEnv = Inl (APIError 400 ''Invalid file format.'')"
    by (simp add: failingEnv_def)
  have g: "isAuthenticated teacherRequest \<and> isTeacher teacherRequest
      \<and> reqFile teacherRequest \<noteq> None \<and> circuitIdParam teacherRequest \<noteq> None
      \<and> apiKeyConfigured failingEnv"
    by (simp add: teacherRequest_def failingEnv_def)
  have "snd (transcribeRoute failingEnv storeA teacherRequest) = storeA"
    and "fst (transcribeRoute failingEnv storeA teacherRequest)
         = transcribeCatch (APIError 400 ''Invalid file format.'')"
    using failed_transcription_stores_nothing [OF h, of storeA teacherRequest] g by simp_all
  then show ?thesis
    using h by (simp add: transcribeCatch_def prod_eq_iff)
qed

text \<open>
  Claim C8: a PDF upload whose extraction call returns a non-success HTTP status still
  succeeds. For an upload that is valid otherwise (a teacher's request with a numeric
  id of an existing circuit, a title and category the schema accepts, and a sequence
  whose next id is free, as it is in every state the program reaches), the response is
  a success carrying the saved item, the item is stored, and its extracted content is
  the empty string.
\<close>

theorem pdf_upload_survives_failed_extraction:
  assumes "isAuthenticated req" and "isTeacher req"
    and "circuitIdParam req = Some cid" and "reqFile req = Some f"
    and "fileExtension f = ''.pdf''"
    and "pdfFetch env = FetchResponse st result" and "\<not> responseOk st"
    and "orString (bodyTitle req) (originalname f) \<noteq> []"
    and "orString (bodyCategory req) ''reference_material'' \<in> set categories"
    and "getWisdomCircuit s cid \<noteq> None"
    and "nextContentId s \<notin> contentId ` set (contents s)"
  shows "\<exists>saved.
           uploadRoute env s req
             = (\<lparr>status = 200, body = JsonContent saved\<rparr>,
                s\<lparr>contents := placeRow (dbSlot env) saved (contents s),
                  nextContentId := nextContentId s + 1\<rparr>)
           \<and> content saved = Some [] \<and> circuitId saved = cid \<and> isArchived saved = False"
proof -
  have ft: "fileTypeOf (fileExtension f) = Some ''pdf''"
    using assms(5) by (simp add: fileTypeOf_def)
  have ex: "readContent env ''pdf'' = Inr (Some [])"
    using assms(6,7) by (simp add: readContent_def extractPdf_def split: sum.splits)
  have parse: "insertCircuitContentSchema_parse (uploadData req f cid ''pdf'' (Some []))
      = Inr (uploadData req f cid ''pdf'' (Some []))"
    using assms(8,9)
    by (simp add: insertCircuitContentSchema_parse_def uploadData_def fileTypes_def)
  let ?saved = "\<lparr>circuitId = cid, title = orString (bodyTitle req) (originalname f),
      description = Some (orString (bodyDescription req) []), fileType = ''pdf'',
      contentUrl = ''/uploads/'' @ filename f,
      category = orString (bodyCategory req) ''reference_material'',
      content = Some [], contentId = nextContentId s, uploadedAt = dbNow env,
      isArchived = False\<rparr>"
  have ins: "createCircuitContent s (dbNow env) (dbSlot env)
        (plainValues (uploadData req f cid ''pdf'' (Some [])))
      = (Inr ?saved, s\<lparr>contents := placeRow (dbSlot env) ?saved (contents s),
                         nextContentId := nextContentId s + 1\<rparr>)"
    using assms(10,11)
    by (auto simp add: createCircuitContent_def plainValues_def uploadData_def orString_def
        Let_def)
  have "uploadRoute env s req
      = (\<lparr>status = 200, body = JsonContent ?saved\<rparr>,
         s\<lparr>contents := placeRow (dbSlot env) ?saved (contents s),
           nextContentId := nextContentId s + 1\<rparr>)"
    using assms(1-4) by (simp add: uploadRoute_def extractAndStore_def ft ex parse ins)
  then show ?thesis
    by auto
qed

theorem pdf_upload_witness:
  "pdfFetch failingEnv = FetchResponse 500 (Inr None) \<and> \<not> responseOk 500
   \<and> uploadRoute failingEnv storeA teacherRequest
       = (\<lparr>status = 200, body = JsonContent
            \<lparr>circuitId = 1, title = ''Pacing.PDF'', description = Some [],
             fileType = ''pdf'', contentUrl = ''/uploads/file-4.PDF'',
             category = ''pacing_guide'', content = Some [],
             contentId = 1, uploadedAt = 40, isArchived = False\<rparr>\<rparr>,
          storeA\<lparr>contents :=
                   [\<lparr>circuitId = 1, title = ''Pacing.PDF'', description = Some [],
                     fileType = ''pdf'', contentUrl = ''/uploads/file-4.PDF'',
                     category = ''pacing_guide'', content = Some [],
                     contentId = 1, uploadedAt = 40, isArchived = False\<rparr>],
                 nextContentId := 2\<rparr>)"
proof -
  have h1: "isAuthenticated teacherRequest" and h2: "isTeacher teacherRequest"
    and h3: "circuitIdParam teacherRequest = Some 1"
    and h4: "reqFile teacherRequest = Some pdfFile"
    by (simp_all add: teacherRequest_def)
  have h5: "fileExtension pdfFile = ''.pdf''"
    by (simp add: pdfFile_def)
  have h6: "pdfFetch failingEnv = FetchResponse 500 (Inr None)"
    by (simp add: failingEnv_def)
  have h7: "\<not> responseOk 500"
    by (simp add: responseOk_def)
  have h8: "orString (bodyTitle teacherRequest) (originalname pdfFile) \<noteq> []"
    by (simp add: teacherRequest_def pdfFile_def orString_def)
  have h9: "orString (bodyCategory teacherRequest) ''reference_material'' \<in> set categories"
    by (simp add: teacherRequest_def orString_def categories_def)
  have h10: "getWisdomCircuit storeA 1 \<noteq> None"
    by (simp add: getWisdomCircuit_def firstRow_def storeA_def circuitA_def)
  have h11: "nextContentId storeA \<notin> contentId ` set (contents storeA)"
    by (simp add: storeA_def)
  from pdf_upload_survives_failed_extraction [OF h1 h2 h3 h4 h5 h6 h7 h8 h9 h10 h11]
  obtain saved where
    "uploadRoute failingEnv storeA teacherRequest
       = (\<lparr>status = 200, body = JsonContent saved\<rparr>,
          storeA\<lparr>contents := placeRow (dbSlot failingEnv) saved (contents storeA),
                 nextContentId := nextContentId storeA + 1\<rparr>)"
    by blast
  moreover have "uploadRoute failingEnv storeA teacherRequest
       = (\<lparr>status = 200, body = JsonContent
            \<lparr>circuitId = 1, title = ''Pacing.PDF'', description = Some [],
             fileType = ''pdf'', contentUrl = ''/uploads/file-4.PDF'',
             category = ''pacing_guide'', content = Some [],
             contentId = 1, uploadedAt = 40, isArchived = False\<rparr>\<rparr>,
          storeA\<lparr>contents :=
                   [\<lparr>circuitId = 1, title = ''Pacing.PDF'', description = Some [],
                     fileType = ''pdf'', contentUrl = ''/uploads/file-4.PDF'',
                     category = ''pacing_guide'', content = Some [],
                     contentId = 1, uploadedAt = 40, isArchived = False\<rparr>],
                 nextContentId := 2\<rparr>)"
    by (simp add: uploadRoute_def teacherRequest_def pdfFile_def failingEnv_def storeA_def
        circuitA_def fileTypeOf_def extractAndStore_def readContent_def extractPdf_def
        responseOk_def insertCircuitContentSchema_parse_def uploadData_def orString_def
        fileTypes_def categories_def createCircuitContent_def plainValues_def placeRow_def
        getWisdomCircuit_def firstRow_def Let_def)
  ultimately show ?thesis
    using h6 h7 by simp
qed

text \<open>
  Claim C9: every item created through \<open>createCircuitContent\<close> starts with its archived
  flag false, whatever archived value the object passed in carries, so it is in the
  next listing of its circuit and its excerpt is part of the next composed prompt.
\<close>

theorem created_content_is_active:
  assumes "createCircuitContent s now slot c = (Inr row, s')"
  shows "isArchived row = False
         \<and> row \<in> set (contents s')
         \<and> row \<in> set (getCircuitContent s' (circuitId c))
         \<and> (\<exists>excerpts. uploadedContent (chatContext circ (getCircuitContent s' (circuitId c)))
                          = Some excerpts
                        \<and> renderExcerpt row \<in> set excerpts)
         \<and> sublist (renderExcerpt row)
              (generateSystemPrompt (chatContext circ (getCircuitContent s' (circuitId c))))"
proof -
  have flag: "isArchived row = False" and cid: "circuitId row = circuitId c"
    and stored: "row \<in> set (contents s')"
    using assms
    by (auto simp add: createCircuitContent_def Let_def set_placeRow split: if_splits)
  then have listed: "row \<in> set (getCircuitContent s' (circuitId c))"
    by (simp add: getCircuitContent_def)
  then have "renderExcerpt row \<in> set (map renderExcerpt (getCircuitContent s' (circuitId c)))"
    by simp
  then have "\<exists>excerpts. uploadedContent (chatContext circ (getCircuitContent s' (circuitId c)))
      = Some excerpts \<and> renderExcerpt row \<in> set excerpts"
    by (simp add: chatContext_def)
  then show ?thesis
    using flag stored listed excerpt_in_prompt [OF listed, of circ] by blast
qed

theorem created_content_is_active_witness:
  "carriedIsArchived archivedInsert = Some True
   \<and> (\<exists>row s'. createCircuitContent storeA 40 0 archivedInsert = (Inr row, s')
         \<and> isArchived row = False \<and> contentId row = 77 \<and> uploadedAt row = 0
         \<and> nextContentId s' = 1
         \<and> getCircuitContent s' 1 = [row]
         \<and> sublist ''Notes:\<newline>Lecture notes''
              (generateSystemPrompt (chatContext circuitA (getCircuitContent s' 1))))"
proof -
  let ?row = "\<lparr>circuitId = 1, title = ''Notes'', description = Some ''Lecture notes'',
      fileType = ''docx'', contentUrl = ''/uploads/file-3.docx'',
      category = ''reference_material'', content = Some [],
      contentId = 77, uploadedAt = 0, isArchived = False\<rparr>"
  let ?s' = "storeA\<lparr>contents := [?row]\<rparr>"
  have h: "createCircuitContent storeA 40 0 archivedInsert = (Inr ?row, ?s')"
    by (simp add: createCircuitContent_def archivedInsert_def storeA_def circuitA_def
        getWisdomCircuit_def firstRow_def placeRow_def Let_def)
  have l: "getCircuitContent ?s' 1 = [?row]"
    by (simp add: getCircuitContent_def)
  have e: "renderExcerpt ?row = ''Notes:\<newline>Lecture notes''"
    by (simp add: renderExcerpt_def orElse_def interpolate_def)
  have n: "nextContentId ?s' = 1"
    by (simp add: storeA_def)
  have c: "circuitId archivedInsert = 1"
    by (simp add: archivedInsert_def)
  from created_content_is_active [OF h, of circuitA]
  have "isArchived ?row = False"
    and "sublist (renderExcerpt ?row)
           (generateSystemPrompt (chatContext circuitA (getCircuitContent ?s' 1)))"
    by (simp_all add: c)
  then show ?thesis
    using h l e n by (auto simp add: archivedInsert_def)
qed

text \<open>
  Claim C10: when the model boundary call succeeds and the content of the reply's first
  message is missing (\<open>null\<close>) or empty, \<open>processChatMessage\<close> returns the fixed
  apology sentence as its result: not an error, and not the empty string.
\<close>

theorem empty_reply_gives_apology:
  assumes "create (generateSystemPrompt ctx) message = Inr response"
    and "choices response = c # cs"
    and "c = None \<or> c = Some []"
  shows "processChatMessage create message ctx
           = Inr ''I apologize, but I couldn't generate a response. Please try rephrasing your question.''"
  using assms
  by (auto simp add: processChatMessage_def apology_def)

theorem empty_reply_gives_apology_witness:
  "silentModel (generateSystemPrompt (chatContext circuitA [])) ''hello'' = Inr \<lparr>choices = [None]\<rparr>
   \<and> processChatMessage silentModel ''hello'' (chatContext circuitA [])
       = Inr ''I apologize, but I couldn't generate a response. Please try rephrasing your question.''"
proof -
  have h: "silentModel (generateSystemPrompt (chatContext circuitA [])) ''hello''
      = Inr \<lparr>choices = [None]\<rparr>"
    by (simp add: silentModel_def)
  show ?thesis
    using empty_reply_gives_apology
            [of silentModel "chatContext circuitA []" "''hello''" "\<lparr>choices = [None]\<rparr>" None "[]"] h
    by simp
qed

end
